theory Spec2Isabelle
  imports Complex_Main
begin

section \<open>JavaScript values used by the client\<close>

text \<open>
  Strings are character lists. A JavaScript number that is produced by
  \<open>Number.parseInt\<close> is an integer or \<open>NaN\<close>; it is modelled as \<open>int option\<close>
  with \<open>None\<close> for \<open>NaN\<close>. Integers are unbounded here: the rounding of IEEE doubles
  beyond \<open>2^53\<close> is not modelled. The delays the retry loop records are exact reals;
  the double that \<open>calculateDelay\<close> computes is modelled in the section on binary64
  arithmetic.
\<close>

type_synonym number = "int option"

text \<open>A string operand of \<open>&&\<close>, \<open>||\<close> or \<open>if\<close>: absent and empty strings are falsy.\<close>

definition truthy :: "string option \<Rightarrow> bool" where
  "truthy v = (case v of None \<Rightarrow> False | Some s \<Rightarrow> s \<noteq> [])"

text \<open>\<open>v || d\<close> for a possibly absent string \<open>v\<close> and a string literal \<open>d\<close>.\<close>

definition orElse :: "string option \<Rightarrow> string \<Rightarrow> string" where
  "orElse v d = (case v of None \<Rightarrow> d | Some s \<Rightarrow> if s = [] then d else s)"

text \<open>A number operand of \<open>&&\<close>: \<open>0\<close> and \<open>NaN\<close> are falsy.\<close>

definition truthyNumber :: "number \<Rightarrow> bool" where
  "truthyNumber n = (case n of None \<Rightarrow> False | Some i \<Rightarrow> i \<noteq> 0)"

definition isWhiteSpace :: "char \<Rightarrow> bool" where
  "isWhiteSpace c =
     (c \<in> set [CHR 0x09, CHR 0x0A, CHR 0x0B, CHR 0x0C, CHR 0x0D, CHR 0x20, CHR 0xA0])"

definition isDigit :: "char \<Rightarrow> bool" where
  "isDigit c = (c \<in> set ''0123456789'')"

definition digitValue :: "char \<Rightarrow> nat" where
  "digitValue c = of_char c - 48"

definition decimalValue :: "string \<Rightarrow> nat" where
  "decimalValue ds = foldl (\<lambda>acc c. acc * 10 + digitValue c) 0 ds"

text \<open>
  \<open>Number.parseInt(s, 10)\<close>: leading white space is skipped, one sign is read, the
  longest run of decimal digits is the value, and no digit at all gives \<open>NaN\<close>.
\<close>

definition parseInt :: "string \<Rightarrow> number" where
  "parseInt s =
     (let t = dropWhile isWhiteSpace s;
          neg = (case t of [] \<Rightarrow> False | c # _ \<Rightarrow> c = CHR ''-'');
          u = (case t of [] \<Rightarrow> [] | c # r \<Rightarrow> if c = CHR ''-'' \<or> c = CHR ''+'' then r else t);
          z = takeWhile isDigit u
      in if z = [] then None
         else Some ((if neg then - 1 else 1) * int (decimalValue z)))"

text \<open>\<open>n * 1000\<close> on a number: \<open>NaN\<close> stays \<open>NaN\<close>.\<close>

definition times1000 :: "number \<Rightarrow> number" where
  "times1000 n = map_option (\<lambda>i. i * 1000) n"

text \<open>A \<open>Date\<close> object, identified by the time value its constructor was given.\<close>

datatype date = Date number

text \<open>The decimal text of a number inside a template literal.\<close>

function showNat :: "nat \<Rightarrow> string" where
  "showNat n =
     (if n < 10 then [char_of (48 + n)]
      else showNat (n div 10) @ [char_of (48 + n mod 10)])"
  by pat_completeness auto
termination
  by (relation "measure id") auto

definition showInt :: "int \<Rightarrow> string" where
  "showInt i = (if i < 0 then CHR ''-'' # showNat (nat (- i)) else showNat (nat i))"

text \<open>
  A value of type \<open>unknown\<close> as far as the error classifier inspects it: a response
  body. Objects carry string-valued properties, as the \<open>ErrorResponse\<close> interface
  declares them.
\<close>

datatype jsvalue =
    JUndefined
  | JNull
  | JBoolean bool
  | JNumber int
  | JString string
  | JObject "(string \<times> string) list"

type_synonym headers = "string \<rightharpoonup> string"

record axios_response =
  status :: int
  data :: jsvalue
  headers :: headers

text \<open>
  What the transport rejects with, before the response interceptor: an object of which
  the classifier reads the properties \<open>response\<close>, \<open>code\<close>, \<open>timeout\<close>, \<open>message\<close>
  and \<open>request\<close>. \<open>None\<close> is an absent property; \<open>isError\<close> is
  \<open>error instanceof Error\<close>. A rejection that is no object has no property at all.
\<close>

record raw_failure =
  response :: "axios_response option"
  code :: "string option"
  timeout :: "int option"
  message :: "string option"
  request :: bool
  isError :: bool

section \<open>Error classes (errors/index.ts)\<close>

definition API_ERROR :: string where "API_ERROR = ''API_ERROR''"
definition NETWORK_ERROR :: string where "NETWORK_ERROR = ''NETWORK_ERROR''"
definition RATE_LIMIT :: string where "RATE_LIMIT = ''RATE_LIMIT''"
definition AUTHENTICATION_ERROR :: string where "AUTHENTICATION_ERROR = ''AUTHENTICATION_ERROR''"
definition VALIDATION_ERROR :: string where "VALIDATION_ERROR = ''VALIDATION_ERROR''"
definition TIMEOUT_ERROR :: string where "TIMEOUT_ERROR = ''TIMEOUT_ERROR''"

text \<open>
  One constructor per class, with the constructor's arguments in the source's order.
  The fields \<open>timestamp\<close> and \<open>stack\<close>, which read the clock and the call stack, are
  left out.
\<close>

datatype pc_error =
    ProxyCheckError string string "int option"
  | ProxyCheckAPIError string int "jsvalue option" "string option"
  | ProxyCheckValidationError string "string option" "jsvalue option"
      "(string \<times> string) list option"
  | ProxyCheckRateLimitError string number number date number
  | ProxyCheckNetworkError string "raw_failure option"
  | ProxyCheckAuthenticationError string
  | ProxyCheckTimeoutError string int

text \<open>The \<open>code\<close> and \<open>statusCode\<close> each class passes to the base constructor.\<close>

fun errorCode :: "pc_error \<Rightarrow> string" where
  "errorCode (ProxyCheckError m c s) = c"
| "errorCode (ProxyCheckAPIError m s r q) = API_ERROR"
| "errorCode (ProxyCheckValidationError m f v es) = VALIDATION_ERROR"
| "errorCode (ProxyCheckRateLimitError m l r d a) = RATE_LIMIT"
| "errorCode (ProxyCheckNetworkError m e) = NETWORK_ERROR"
| "errorCode (ProxyCheckAuthenticationError m) = AUTHENTICATION_ERROR"
| "errorCode (ProxyCheckTimeoutError m t) = TIMEOUT_ERROR"

fun errorStatusCode :: "pc_error \<Rightarrow> int option" where
  "errorStatusCode (ProxyCheckError m c s) = s"
| "errorStatusCode (ProxyCheckAPIError m s r q) = Some s"
| "errorStatusCode (ProxyCheckValidationError m f v es) = None"
| "errorStatusCode (ProxyCheckRateLimitError m l r d a) = Some 429"
| "errorStatusCode (ProxyCheckNetworkError m e) = None"
| "errorStatusCode (ProxyCheckAuthenticationError m) = Some 401"
| "errorStatusCode (ProxyCheckTimeoutError m t) = None"

text \<open>
  Anything a promise can reject with or a \<open>throw\<close> can raise: a typed error, the
  transport's own failure object, a \<open>TypeError\<close> of the runtime (a property read on
  \<open>null\<close> or \<open>undefined\<close>), or the value \<open>undefined\<close>.
\<close>

datatype thrown =
    Typed pc_error
  | Raw raw_failure
  | TypeError string
  | ThrownUndefined

fun isRateLimitError :: "thrown \<Rightarrow> bool" where
  "isRateLimitError (Typed (ProxyCheckRateLimitError m l r d a)) = True"
| "isRateLimitError _ = False"

fun isProxyCheckError :: "thrown \<Rightarrow> bool" where
  "isProxyCheckError (Typed e) = True"
| "isProxyCheckError _ = False"

text \<open>The properties \<open>statusCode\<close> and \<open>code\<close> of a caught value, when it has them.\<close>

fun thrownStatusCode :: "thrown \<Rightarrow> int option" where
  "thrownStatusCode (Typed e) = errorStatusCode e"
| "thrownStatusCode _ = None"

fun thrownCode :: "thrown \<Rightarrow> string option" where
  "thrownCode (Typed e) = Some (errorCode e)"
| "thrownCode (Raw f) = code f"
| "thrownCode _ = None"

text \<open>
  \<open>ProxyCheckAPIError.fromResponse\<close>: reading \<open>response.message\<close> on \<open>null\<close> or
  \<open>undefined\<close> raises a \<open>TypeError\<close>; on any other primitive the property is absent.
\<close>

definition property :: "jsvalue \<Rightarrow> string \<Rightarrow> string option" where
  "property v k = (case v of JObject kvs \<Rightarrow> map_of kvs k | _ \<Rightarrow> None)"

definition fromResponse :: "int \<Rightarrow> jsvalue \<Rightarrow> string option \<Rightarrow> thrown + pc_error" where
  "fromResponse statusCode resp requestId =
     (if resp = JNull \<or> resp = JUndefined
      then Inl (TypeError ''Cannot read properties of null or undefined (reading message)'')
      else
        let msg =
              (if truthy (property resp ''message'') then the (property resp ''message'')
               else if truthy (property resp ''error'') then the (property resp ''error'')
               else ''API error: '' @ showInt statusCode)
        in Inr (ProxyCheckAPIError msg statusCode (Some resp) requestId))"

text \<open>\<open>s.includes(t)\<close>.\<close>

fun includesStr :: "string \<Rightarrow> string \<Rightarrow> bool" where
  "includesStr [] t = (t = [])"
| "includesStr (c # s) t = (take (length t) (c # s) = t \<or> includesStr s t)"

definition createErrorFromResponse :: "raw_failure \<Rightarrow> thrown + pc_error" where
  "createErrorFromResponse error =
     (case response error of
        Some r \<Rightarrow>
          if status r = 429 then
            Inr (ProxyCheckRateLimitError ''Rate limit exceeded''
                  (parseInt (orElse (headers r ''x-ratelimit-limit'') ''0''))
                  (parseInt (orElse (headers r ''x-ratelimit-remaining'') ''0''))
                  (Date (times1000 (parseInt (orElse (headers r ''x-ratelimit-reset'') ''0''))))
                  (parseInt (orElse (headers r ''retry-after'') ''60'')))
          else if status r = 401 then
            Inr (ProxyCheckAuthenticationError
                  (case property (data r) ''message'' of
                     Some m \<Rightarrow> m
                   | None \<Rightarrow> ''Authentication failed''))
          else fromResponse (status r) (data r) (headers r ''x-request-id'')
      | None \<Rightarrow>
          if code error = Some ''ECONNABORTED'' then
            Inr (ProxyCheckTimeoutError ''Request timed out''
                  (case timeout error of Some t \<Rightarrow> t | None \<Rightarrow> 0))
          else if (case message error of Some m \<Rightarrow> includesStr m ''timeout'' | None \<Rightarrow> False) then
            Inr (ProxyCheckTimeoutError ''Request timed out'' 0)
          else if request error then
            Inr (ProxyCheckNetworkError ''Network error occurred''
                  (if isError error then Some error else None))
          else
            Inr (ProxyCheckError
                  (case message error of Some m \<Rightarrow> m | None \<Rightarrow> ''An unknown error occurred'')
                  API_ERROR None))"

section \<open>HTTP client (http/index.ts)\<close>

definition isRetryableError :: "thrown \<Rightarrow> bool" where
  "isRetryableError error =
     (case thrownStatusCode error of
        Some sc \<Rightarrow>
          if 400 \<le> sc \<and> sc < 500 then isRateLimitError error
          else if 500 \<le> sc then True
          else thrownCode error = Some NETWORK_ERROR \<or> thrownCode error = Some TIMEOUT_ERROR
      | None \<Rightarrow>
          thrownCode error = Some NETWORK_ERROR \<or> thrownCode error = Some TIMEOUT_ERROR)"

text \<open>
  The client's configuration, as far as the request loop reads it. The constructor
  replaces a missing or zero value by the default (\<open>config.retries || DEFAULTS.RETRIES\<close>).
\<close>

record http_config =
  retries :: nat
  retryDelay :: real

definition DEFAULT_RETRIES :: nat where "DEFAULT_RETRIES = 3"
definition DEFAULT_RETRY_DELAY :: real where "DEFAULT_RETRY_DELAY = 1000"

definition httpClient :: "nat option \<Rightarrow> real option \<Rightarrow> http_config" where
  "httpClient r d =
     \<lparr> retries = (case r of None \<Rightarrow> DEFAULT_RETRIES
                   | Some n \<Rightarrow> if n = 0 then DEFAULT_RETRIES else n),
       retryDelay = (case d of None \<Rightarrow> DEFAULT_RETRY_DELAY
                     | Some x \<Rightarrow> if x = 0 then DEFAULT_RETRY_DELAY else x) \<rparr>"

record rate_limit_info =
  limit :: number
  remaining :: number
  reset :: date
  retryAfter :: number

text \<open>The field \<open>_rateLimitInfo\<close> is passed in and returned.\<close>

definition updateRateLimitInfo ::
  "rate_limit_info option \<Rightarrow> axios_response \<Rightarrow> rate_limit_info option" where
  "updateRateLimitInfo info r =
     (case headers r ''x-ratelimit-limit'' of
        None \<Rightarrow> info
      | Some l \<Rightarrow>
          if l = [] then info
          else Some \<lparr> limit = parseInt l,
                      remaining = parseInt (orElse (headers r ''x-ratelimit-remaining'') ''0''),
                      reset = Date (times1000
                                (parseInt (orElse (headers r ''x-ratelimit-reset'') ''0''))),
                      retryAfter = parseInt (orElse (headers r ''retry-after'') ''0'') \<rparr>)"

text \<open>What the transport does with one call, before the response interceptor.\<close>

datatype transport_outcome = Resolved axios_response | Rejected raw_failure

text \<open>
  The value the response interceptor's error handler rejects with: the classified
  error, or the exception the classifier itself raised.
\<close>

definition rejection :: "raw_failure \<Rightarrow> thrown" where
  "rejection error =
     (case createErrorFromResponse error of Inl t \<Rightarrow> t | Inr e \<Rightarrow> Typed e)"

text \<open>The response interceptor of \<open>setupInterceptors\<close>, on both of its paths.\<close>

definition responseInterceptor ::
  "rate_limit_info option \<Rightarrow> transport_outcome
     \<Rightarrow> (thrown + axios_response) \<times> rate_limit_info option" where
  "responseInterceptor info out =
     (case out of
        Resolved r \<Rightarrow> (Inr r, updateRateLimitInfo info r)
      | Rejected error \<Rightarrow>
          (Inl (rejection error),
           (case response error of
              Some r \<Rightarrow> updateRateLimitInfo info r
            | None \<Rightarrow> info)))"

text \<open>
  The exact value of the formula of \<open>calculateDelay\<close>, before any rounding; the third
  argument is the value \<open>Math.random()\<close> returns. The double the program computes is
  \<open>calculateDelay64\<close> below.
\<close>

definition calculateDelay :: "nat \<Rightarrow> real \<Rightarrow> real \<Rightarrow> real" where
  "calculateDelay attempt baseDelay rnd = baseDelay * 2 ^ attempt + rnd * 1000"

text \<open>The delay \<open>request\<close> sleeps for after a retryable failure of an attempt.\<close>

fun nextDelay :: "http_config \<Rightarrow> nat \<Rightarrow> real \<Rightarrow> thrown \<Rightarrow> real" where
  "nextDelay cfg attempt rnd (Typed (ProxyCheckRateLimitError m l r d (Some a))) =
     (if a \<noteq> 0 then of_int (a * 1000)
      else calculateDelay attempt (retryDelay cfg) rnd)"
| "nextDelay cfg attempt rnd error = calculateDelay attempt (retryDelay cfg) rnd"

text \<open>
  One run of \<open>request\<close>: what it returns or throws, the number of transport calls it
  made, the delays it slept for, in order, and the rate-limit snapshot it leaves.
\<close>

record request_run =
  outcome :: "thrown + jsvalue"
  attempts :: nat
  sleeps :: "real list"
  rateLimitInfo :: "rate_limit_info option"

text \<open>
  The \<open>for\<close> loop of \<open>request\<close>. \<open>transport k\<close> is what the transport does with the
  call of attempt \<open>k\<close>, \<open>random k\<close> the random number drawn in that attempt. The
  arguments after them are the loop's variables \<open>attempt\<close> and \<open>lastError\<close>, the
  rate-limit snapshot and the delays slept so far.
\<close>

function requestLoop ::
  "http_config \<Rightarrow> (nat \<Rightarrow> transport_outcome) \<Rightarrow> (nat \<Rightarrow> real) \<Rightarrow> nat \<Rightarrow> thrown
     \<Rightarrow> rate_limit_info option \<Rightarrow> real list \<Rightarrow> request_run" where
  "requestLoop cfg transport random attempt lastError info slept =
     (if attempt \<le> retries cfg then
        (case responseInterceptor info (transport attempt) of
           (Inr resp, info') \<Rightarrow>
             \<lparr> outcome = Inr (data resp), attempts = Suc attempt, sleeps = slept,
               rateLimitInfo = info' \<rparr>
         | (Inl error, info') \<Rightarrow>
             if attempt = retries cfg then
               \<lparr> outcome = Inl error, attempts = Suc attempt, sleeps = slept,
                 rateLimitInfo = info' \<rparr>
             else if \<not> isRetryableError error then
               \<lparr> outcome = Inl error, attempts = Suc attempt, sleeps = slept,
                 rateLimitInfo = info' \<rparr>
             else
               requestLoop cfg transport random (Suc attempt) error info'
                 (slept @ [nextDelay cfg attempt (random attempt) error]))
      else
        \<lparr> outcome = Inl lastError, attempts = attempt, sleeps = slept,
          rateLimitInfo = info \<rparr>)"
  by pat_completeness auto
termination
  by (relation "measure (\<lambda>(cfg, transport, random, attempt, lastError, info, slept).
        Suc (retries cfg) - attempt)") auto

definition request ::
  "http_config \<Rightarrow> (nat \<Rightarrow> transport_outcome) \<Rightarrow> (nat \<Rightarrow> real)
     \<Rightarrow> rate_limit_info option \<Rightarrow> request_run" where
  "request cfg transport random info =
     requestLoop cfg transport random 0 ThrownUndefined info []"

section \<open>Option merger (config/index.ts)\<close>

record proxycheck_options =
  apiKey :: "string option"
  asnData :: "bool option"
  allowedCountries :: "string list option"
  blockedCountries :: "string list option"
  tlsSecurity :: "bool option"
  infEngine :: "bool option"
  riskData :: "nat option"
  vpnDetection :: "nat option"
  dayRestrictor :: "int option"
  queryTagging :: "bool option"
  customTag :: "string option"
  maskAddress :: "bool option"

text \<open>An argument of type \<open>string | Array<string>\<close>.\<close>

datatype addresses = Single string | Many "string list"

record post_data =
  ips :: "string option"
  tag :: "string option"

text \<open>\<open>xs.join(sep)\<close>.\<close>

fun join :: "string \<Rightarrow> string list \<Rightarrow> string" where
  "join sep [] = []"
| "join sep [x] = x"
| "join sep (x # y # ys) = x @ sep @ join sep (y # ys)"

definition buildPostData :: "proxycheck_options \<Rightarrow> addresses option \<Rightarrow> post_data" where
  "buildPostData options addrs =
     (let data0 = \<lparr> ips = None, tag = None \<rparr>;
          data1 = (case addrs of
                     Some (Many xs) \<Rightarrow>
                       if length xs > 1 then data0 \<lparr> ips := Some (join '','' xs) \<rparr> else data0
                   | _ \<Rightarrow> data0);
          data2 = (if queryTagging options = Some True \<and> truthy (customTag options)
                   then data1 \<lparr> tag := customTag options \<rparr> else data1)
      in data2)"

definition shouldUsePostMethod :: "addresses option \<Rightarrow> bool" where
  "shouldUsePostMethod addrs =
     (case addrs of Some (Many xs) \<Rightarrow> length xs > 1 | _ \<Rightarrow> False)"

text \<open>\<open>s.split(sep)\<close> for a separator of one character.\<close>

fun split :: "char \<Rightarrow> string \<Rightarrow> string list" where
  "split sep [] = [[]]"
| "split sep (c # cs) =
     (if c = sep then [] # split sep cs
      else (case split sep cs of
              [] \<Rightarrow> [[c]]
            | s # ss \<Rightarrow> (c # s) # ss))"

text \<open>
  The inner function \<open>maskEmail\<close>: \<open>domain\<close> is the second element of the split, and
  \<open>undefined\<close> when there is none.
\<close>

definition maskEmail :: "string \<Rightarrow> string" where
  "maskEmail address =
     (if includesStr address ''@'' then
        (case split CHR ''@'' address of
           _ # domain # _ \<Rightarrow> ''anonymous@'' @ domain
         | _ \<Rightarrow> ''anonymous@undefined'')
      else address)"

text \<open>The parameter \<open>maskAddress\<close> defaults to \<open>false\<close> when it is \<open>undefined\<close>.\<close>

definition processAddresses :: "addresses \<Rightarrow> bool option \<Rightarrow> addresses" where
  "processAddresses addrs masking =
     (if masking \<noteq> Some True then addrs
      else (case addrs of
              Many xs \<Rightarrow> Many (map maskEmail xs)
            | Single a \<Rightarrow> Single (maskEmail a)))"

definition nonEmptyList :: "string list option \<Rightarrow> bool" where
  "nonEmptyList v = (case v of None \<Rightarrow> False | Some xs \<Rightarrow> length xs > 0)"

definition mergeCountryOptions :: "proxycheck_options \<Rightarrow> proxycheck_options" where
  "mergeCountryOptions options =
     (let merged = options
      in if nonEmptyList (allowedCountries options) \<or> nonEmptyList (blockedCountries options)
         then merged \<lparr> asnData := Some True \<rparr>
         else merged)"

section \<open>Binary64 arithmetic\<close>

text \<open>
  The value \<open>calculateDelay\<close> computes is a binary64 number (an IEEE 754 double). A
  double is \<open>NaN\<close>, an infinity, or a finite rational; the two zeros are not
  distinguished.
\<close>

datatype double = NaN | NegInfinity | Finite rat | PosInfinity

text \<open>\<open>ilog2 n\<close> is the floor and \<open>clog2 n\<close> the ceiling of the binary logarithm of \<open>n \<ge> 1\<close>.\<close>

function ilog2 :: "int \<Rightarrow> int" where
  "ilog2 n = (if n < 2 then 0 else 1 + ilog2 (n div 2))"
  by pat_completeness auto
termination
  by (relation "measure nat") auto

definition clog2 :: "int \<Rightarrow> int" where
  "clog2 n = (if n \<le> 1 then 0 else 1 + ilog2 (n - 1))"

text \<open>The binary exponent of \<open>x > 0\<close>: the \<open>e\<close> with \<open>2^e \<le> x < 2^(e+1)\<close>.\<close>

definition expo :: "rat \<Rightarrow> int" where
  "expo x = (if 1 \<le> x then ilog2 \<lfloor>x\<rfloor> else - clog2 \<lceil>1 / x\<rceil>)"

text \<open>Rounding to the nearest integer, a tie going to the even one.\<close>

definition roundHalfEven :: "rat \<Rightarrow> int" where
  "roundHalfEven q =
     (let f = \<lfloor>q\<rfloor>; d = q - of_int f
      in if d < 1 / 2 then f else if 1 / 2 < d then f + 1 else if even f then f else f + 1)"

text \<open>
  The spacing of the doubles around \<open>x\<close>: 53 significant bits, and the spacing
  \<open>2^-1074\<close> of the subnormal numbers below \<open>2^-1022\<close>.
\<close>

definition ulp :: "rat \<Rightarrow> rat" where
  "ulp x = 2 powi (max (expo \<bar>x\<bar>) (- 1022) - 52)"

definition roundNearest :: "rat \<Rightarrow> rat" where
  "roundNearest x = (if x = 0 then 0 else of_int (roundHalfEven (x / ulp x)) * ulp x)"

text \<open>
  The double an exact result is rounded to (round to nearest, ties to even): a result
  that rounds to \<open>2^1024\<close> or beyond in magnitude overflows to an infinity.
\<close>

definition round64 :: "rat \<Rightarrow> double" where
  "round64 x =
     (let r = roundNearest x
      in if 2 powi 1024 \<le> r then PosInfinity
         else if r \<le> - (2 powi 1024) then NegInfinity
         else Finite r)"

fun isNegative :: "double \<Rightarrow> bool" where
  "isNegative (Finite x) = (x < 0)"
| "isNegative NegInfinity = True"
| "isNegative _ = False"

text \<open>The operators \<open>*\<close> and \<open>+\<close> on doubles.\<close>

fun mul64 :: "double \<Rightarrow> double \<Rightarrow> double" where
  "mul64 NaN b = NaN"
| "mul64 a NaN = NaN"
| "mul64 (Finite x) (Finite y) = round64 (x * y)"
| "mul64 a b =
     (if a = Finite 0 \<or> b = Finite 0 then NaN
      else if isNegative a = isNegative b then PosInfinity
      else NegInfinity)"

fun add64 :: "double \<Rightarrow> double \<Rightarrow> double" where
  "add64 NaN b = NaN"
| "add64 a NaN = NaN"
| "add64 (Finite x) (Finite y) = round64 (x + y)"
| "add64 PosInfinity NegInfinity = NaN"
| "add64 NegInfinity PosInfinity = NaN"
| "add64 (Finite x) b = b"
| "add64 a b = a"

text \<open>
  \<open>calculateDelay\<close> as the program computes it,
  \<open>baseDelay * 2 ** attempt + Math.random() * 1000\<close>: every operation rounds its
  result. The third argument is the double \<open>Math.random()\<close> returns.
\<close>

definition calculateDelay64 :: "nat \<Rightarrow> double \<Rightarrow> double \<Rightarrow> double" where
  "calculateDelay64 attempt baseDelay rnd =
     add64 (mul64 baseDelay (round64 (2 ^ attempt))) (mul64 rnd (Finite 1000))"

section \<open>Notions used to state the properties\<close>

text \<open>The value attempt \<open>k\<close> is rejected with, if the transport fails there.\<close>

definition attemptError :: "(nat \<Rightarrow> transport_outcome) \<Rightarrow> nat \<Rightarrow> thrown option" where
  "attemptError transport k =
     (case transport k of Resolved r \<Rightarrow> None | Rejected f \<Rightarrow> Some (rejection f))"

text \<open>The response an outcome carries: that of a success, or of an error with a response.\<close>

definition received :: "transport_outcome \<Rightarrow> axios_response option" where
  "received out = (case out of Resolved r \<Rightarrow> Some r | Rejected f \<Rightarrow> response f)"

section \<open>Inputs of the test suite and of the examples\<close>

text \<open>The 429 response of the error classifier's own test.\<close>

definition response429 :: axios_response where
  "response429 =
     \<lparr> status = 429, data = JObject [(''message'', ''Too many requests'')],
       headers = [''x-ratelimit-limit'' \<mapsto> ''100'', ''x-ratelimit-remaining'' \<mapsto> ''0'',
                  ''x-ratelimit-reset'' \<mapsto> ''1700000000'', ''retry-after'' \<mapsto> ''30''] \<rparr>"

text \<open>A transport failure that carries a response, and one that carries none.\<close>

definition failureWith :: "axios_response \<Rightarrow> raw_failure" where
  "failureWith r =
     \<lparr> response = Some r, code = Some ''ERR_BAD_RESPONSE'', timeout = None,
       message = Some ''Request failed'', request = True, isError = True \<rparr>"

definition networkFailure :: raw_failure where
  "networkFailure =
     \<lparr> response = None, code = Some ''ERR_NETWORK'', timeout = None,
       message = Some ''Network Error'', request = True, isError = True \<rparr>"

text \<open>A client with three retries and a base delay of one second (the defaults).\<close>

definition config3 :: http_config where
  "config3 = httpClient (Some 3) (Some 1000)"

text \<open>A success that carries rate-limit headers (the happy path of the examples).\<close>

definition okResponse :: axios_response where
  "okResponse =
     \<lparr> status = 200, data = JObject [(''status'', ''ok'')],
       headers = [''x-ratelimit-limit'' \<mapsto> ''1000'', ''x-ratelimit-remaining'' \<mapsto> ''998''] \<rparr>"



text \<open>A 500 whose body is the JSON text \<open>null\<close>.\<close>

definition response500null :: axios_response where
  "response500null = \<lparr> status = 500, data = JNull, headers = Map.empty \<rparr>"

text \<open>A success with \<open>x-ratelimit-remaining\<close> and \<open>retry-after\<close>, without \<open>x-ratelimit-limit\<close>.\<close>

definition remainingOnly :: axios_response where
  "remainingOnly =
     \<lparr> status = 200, data = JObject [(''status'', ''ok'')],
       headers = [''x-ratelimit-remaining'' \<mapsto> ''5'', ''retry-after'' \<mapsto> ''30''] \<rparr>"

definition oldSnapshot :: rate_limit_info where
  "oldSnapshot =
     \<lparr> limit = Some 100, remaining = Some 99, reset = Date (Some 1700000000000),
       retryAfter = Some 0 \<rparr>"


text \<open>A random source that always yields one half.\<close>

definition halfJitter :: "nat \<Rightarrow> real" where
  "halfJitter k = 1 / 2"

text \<open>The empty option bag.\<close>

definition noOptions :: proxycheck_options where
  "noOptions =
     \<lparr> apiKey = None, asnData = None, allowedCountries = None, blockedCountries = None,
       tlsSecurity = None, infEngine = None, riskData = None, vpnDetection = None,
       dayRestrictor = None, queryTagging = None, customTag = None, maskAddress = None \<rparr>"

section \<open>Evaluation rules\<close>

lemmas error_codes =
  API_ERROR_def NETWORK_ERROR_def RATE_LIMIT_def AUTHENTICATION_ERROR_def
  VALIDATION_ERROR_def TIMEOUT_ERROR_def

lemmas parseInt_eval =
  parseInt_def isWhiteSpace_def isDigit_def decimalValue_def digitValue_def

lemma parseInt_zero: "parseInt ''0'' = Some 0"
  by (simp add: parseInt_eval)

lemma parseInt_sixty: "parseInt ''60'' = Some 60"
  by (simp add: parseInt_eval)

lemmas request_eval =
  request_def requestLoop.simps responseInterceptor_def rejection_def
  createErrorFromResponse_def fromResponse_def updateRateLimitInfo_def isRetryableError_def
  orElse_def truthy_def property_def times1000_def calculateDelay_def httpClient_def
  DEFAULT_RETRIES_def DEFAULT_RETRY_DELAY_def

declare requestLoop.simps [simp del]

declare ilog2.simps [simp del]

section \<open>Retryability\<close>

text \<open>
  C1 (as amended). \<open>isRetryableError\<close> returns true exactly for a rate-limit error, for
  an error with a numeric status code of 500 or more, and for an error whose code is
  \<open>NETWORK_ERROR\<close> or \<open>TIMEOUT_ERROR\<close> and whose status code, if it has one, is not in
  the range 400 to 499. Every error with a status code in that range other than 429 is
  not retryable, whatever its code.
\<close>

theorem isRetryableError_characterisation:
  "(isRetryableError e \<longleftrightarrow>
      (isRateLimitError e
       \<or> (\<exists>sc. thrownStatusCode e = Some sc \<and> 500 \<le> sc)
       \<or> ((thrownCode e = Some NETWORK_ERROR \<or> thrownCode e = Some TIMEOUT_ERROR)
          \<and> \<not> (\<exists>sc. thrownStatusCode e = Some sc \<and> 400 \<le> sc \<and> sc < 500))))
   \<and> (\<forall>sc. thrownStatusCode e = Some sc \<and> 400 \<le> sc \<and> sc < 500 \<and> sc \<noteq> 429
          \<longrightarrow> \<not> isRetryableError e)"
proof (cases e)
  case (Typed err)
  then show ?thesis
    by (cases err)
       (auto simp: isRetryableError_def error_codes split: option.splits)
next
  case (Raw f)
  then show ?thesis by (simp add: isRetryableError_def)
next
  case (TypeError m)
  then show ?thesis by (simp add: isRetryableError_def)
next
  case ThrownUndefined
  then show ?thesis by (simp add: isRetryableError_def)
qed

text \<open>
  The errors of the client's own test: a 400 is terminal; a 500, a network error and a
  rate-limit error are retried.
\<close>

theorem isRetryableError_characterisation_witness:
  "\<not> isRetryableError (Typed (ProxyCheckAPIError ''Bad request'' 400 None None))
   \<and> isRetryableError (Typed (ProxyCheckAPIError ''Server error'' 500 None None))
   \<and> isRetryableError (Typed (ProxyCheckNetworkError ''Network error'' None))
   \<and> isRetryableError
        (Typed (ProxyCheckRateLimitError ''Rate limited'' (Some 100) (Some 0) (Date (Some 0))
           (Some 60)))"
  using isRetryableError_characterisation
          [of "Typed (ProxyCheckAPIError ''Bad request'' 400 None None)"]
        isRetryableError_characterisation
          [of "Typed (ProxyCheckAPIError ''Server error'' 500 None None)"]
        isRetryableError_characterisation
          [of "Typed (ProxyCheckNetworkError ''Network error'' None)"]
        isRetryableError_characterisation
          [of "Typed (ProxyCheckRateLimitError ''Rate limited'' (Some 100) (Some 0)
                 (Date (Some 0)) (Some 60))"]
  by (simp add: error_codes)

text \<open>
  C1 as stated fails: a base error constructed with the code \<open>NETWORK_ERROR\<close> and the
  status code 404 has the code the claim names, and is not retried, since the check of
  the status code returns first.
\<close>

theorem isRetryableError_network_code_counterexample:
  "thrownCode (Typed (ProxyCheckError ''Not found'' ''NETWORK_ERROR'' (Some 404)))
     = Some NETWORK_ERROR
   \<and> \<not> isRateLimitError (Typed (ProxyCheckError ''Not found'' ''NETWORK_ERROR'' (Some 404)))
   \<and> isRetryableError (Typed (ProxyCheckError ''Not found'' ''NETWORK_ERROR'' (Some 404)))
       = False"
  by (simp add: isRetryableError_def error_codes)

text \<open>
  Every error the classifier itself produces has the code of its class and, for a
  network or timeout error, no status code: on these the rule of the specification and
  the code agree.
\<close>

lemma isRetryableError_classified:
  assumes "createErrorFromResponse f = Inr err"
  shows "isRetryableError (Typed err) \<longleftrightarrow>
           (isRateLimitError (Typed err)
            \<or> (\<exists>sc. errorStatusCode err = Some sc \<and> 500 \<le> sc)
            \<or> errorCode err = NETWORK_ERROR \<or> errorCode err = TIMEOUT_ERROR)"
  using assms
  by (auto simp: createErrorFromResponse_def fromResponse_def isRetryableError_def
        error_codes Let_def split: option.splits if_splits)

section \<open>Backoff delay\<close>

text \<open>
  In exact arithmetic the formula stays inside the half-open interval: for a random
  value \<open>u\<close> with \<open>0 \<le> u < 1\<close> its value is \<open>b * 2^a\<close> plus a jitter in
  \<open>[0, 1000)\<close>.
\<close>

lemma calculateDelay_exact_bounds:
  assumes "0 \<le> u" and "u < 1"
  shows "b * 2 ^ a \<le> calculateDelay a b u
         \<and> calculateDelay a b u < b * 2 ^ a + 1000
         \<and> (\<exists>j. 0 \<le> j \<and> j < 1000 \<and> calculateDelay a b u = b * 2 ^ a + j)"
proof -
  have j: "0 \<le> u * 1000" "u * 1000 < 1000" using assms by simp_all
  have eq: "calculateDelay a b u = b * 2 ^ a + u * 1000" by (simp add: calculateDelay_def)
  show ?thesis using j eq by auto
qed

subsection \<open>The binary exponent and the rounding of one number\<close>

text \<open>
  \<open>expo x\<close> is the binary exponent of every \<open>x > 0\<close>, and the only integer
  between whose power of two and the next one \<open>x\<close> lies.
\<close>

lemma ilog2_nonneg: "0 \<le> ilog2 n"
  by (induction n rule: ilog2.induct) (subst ilog2.simps, simp)

lemma ilog2_bounds:
  "1 \<le> n \<Longrightarrow> 2 ^ nat (ilog2 n) \<le> n \<and> n < 2 * 2 ^ nat (ilog2 n)"
proof (induction n rule: ilog2.induct)
  case (1 n)
  show ?case
  proof (cases "n < 2")
    case True
    with "1.prems" have "n = 1" by simp
    then show ?thesis by (subst (1 2) ilog2.simps) simp
  next
    case False
    then have "1 \<le> n div 2" by simp
    from "1.IH" [OF False this]
    have ih: "2 ^ nat (ilog2 (n div 2)) \<le> n div 2" "n div 2 < 2 * 2 ^ nat (ilog2 (n div 2))"
      by simp_all
    have eq: "ilog2 n = 1 + ilog2 (n div 2)"
      using False by (subst ilog2.simps) simp
    have pw: "(2::int) ^ nat (1 + ilog2 (n div 2)) = 2 * 2 ^ nat (ilog2 (n div 2))"
      using ilog2_nonneg [of "n div 2"] by (simp add: nat_add_distrib)
    show ?thesis
      unfolding eq pw using ih by auto
  qed
qed


lemma expo_bounds:
  assumes "0 < x"
  shows "2 powi (expo x) \<le> x \<and> x < 2 powi (expo x + 1)"
proof (cases "1 \<le> x")
  case True
  define n where "n = \<lfloor>x\<rfloor>"
  have n1: "1 \<le> n" using True by (simp add: n_def)
  have e: "expo x = ilog2 n" using True by (simp add: expo_def n_def)
  from ilog2_bounds [OF n1]
  have b: "2 ^ nat (ilog2 n) \<le> n" "n + 1 \<le> 2 * 2 ^ nat (ilog2 n)" by simp_all
  have c1: "(of_int (2 ^ nat (ilog2 n)) :: rat) = 2 ^ nat (ilog2 n)"
    and c2: "(of_int (2 * 2 ^ nat (ilog2 n)) :: rat) = 2 * 2 ^ nat (ilog2 n)"
    by simp_all
  have "(of_int (2 ^ nat (ilog2 n)) :: rat) \<le> of_int n" using b(1) by (simp only: of_int_le_iff)
  moreover have "(of_int n :: rat) \<le> x" by (simp add: n_def)
  ultimately have lo: "(2::rat) ^ nat (ilog2 n) \<le> x" unfolding c1 by (rule order_trans)
  have "x < of_int (n + 1)" unfolding n_def by linarith
  moreover have "(of_int (n + 1) :: rat) \<le> of_int (2 * 2 ^ nat (ilog2 n))"
    using b(2) by (simp only: of_int_le_iff)
  ultimately have hi: "x < 2 * (2::rat) ^ nat (ilog2 n)" unfolding c2 by (rule less_le_trans)
  have p1: "(2::rat) powi (ilog2 n) = 2 ^ nat (ilog2 n)"
    using ilog2_nonneg [of n] by (simp add: power_int_def)
  have p2: "(2::rat) powi (ilog2 n + 1) = 2 * 2 ^ nat (ilog2 n)"
    using ilog2_nonneg [of n] by (simp add: power_int_def nat_add_distrib)
  show ?thesis unfolding e p1 p2 using lo hi by simp
next
  case False
  define y where "y = 1 / x"
  define m where "m = \<lceil>y\<rceil>"
  have y1: "1 < y" using False assms by (simp add: y_def)
  have m2: "2 \<le> m" unfolding m_def using y1 by linarith
  define j where "j = ilog2 (m - 1)"
  have j0: "0 \<le> j" by (simp add: j_def ilog2_nonneg)
  have e: "expo x = - (1 + j)"
    using False m2 by (simp add: expo_def clog2_def y_def m_def j_def)
  from ilog2_bounds [of "m - 1"] m2
  have b: "2 ^ nat j \<le> m - 1" "m \<le> 2 * 2 ^ nat j" by (simp_all add: j_def)
  have c1: "(of_int (2 ^ nat j) :: rat) = 2 ^ nat j"
    and c2: "(of_int (2 * 2 ^ nat j) :: rat) = 2 * 2 ^ nat j"
    by simp_all
  have "y \<le> of_int m" by (simp add: m_def)
  moreover have "(of_int m :: rat) \<le> of_int (2 * 2 ^ nat j)" using b(2) by (simp only: of_int_le_iff)
  ultimately have yhi: "y \<le> 2 * 2 ^ nat j" unfolding c2 by (rule order_trans)
  have "(of_int (2 ^ nat j) :: rat) \<le> of_int (m - 1)" using b(1) by (simp only: of_int_le_iff)
  moreover have "of_int (m - 1) < y" unfolding m_def by linarith
  ultimately have ylo: "2 ^ nat j < y" unfolding c1 by (rule le_less_trans)
  have xy: "x = 1 / y" using assms by (simp add: y_def)
  have lo: "1 / (2 * 2 ^ nat j) \<le> x"
    unfolding xy using yhi y1 by (intro divide_left_mono) simp_all
  have hi: "x < 1 / 2 ^ nat j"
    unfolding xy using ylo y1 by (intro divide_strict_left_mono) simp_all
  have p1: "(2::rat) powi (- (1 + j)) = 1 / (2 * 2 ^ nat j)"
    using j0 by (simp add: power_int_def nat_add_distrib field_simps)
  have p2: "(2::rat) powi (- (1 + j) + 1) = 1 / 2 ^ nat j"
    using j0 by (simp add: power_int_def field_simps)
  show ?thesis unfolding e p1 p2 using lo hi by simp
qed

lemma expo_eqI:
  assumes "2 powi e \<le> x" and "x < 2 powi (e + 1)"
  shows "expo x = e"
proof -
  have pos: "0 < x" using assms(1) zero_less_power_int [of "2::rat" e] by linarith
  note b = expo_bounds [OF pos]
  have "\<not> expo x < e"
  proof
    assume "expo x < e"
    then have "(2::rat) powi (expo x + 1) \<le> 2 powi e"
      by (intro power_int_increasing) simp_all
    with b assms(1) show False by linarith
  qed
  moreover have "\<not> e < expo x"
  proof
    assume "e < expo x"
    then have "(2::rat) powi (e + 1) \<le> 2 powi (expo x)"
      by (intro power_int_increasing) simp_all
    with b assms(2) show False by linarith
  qed
  ultimately show ?thesis by simp
qed

text \<open>
  The rounding of a given number is settled by naming its exponent and the integer
  its quotient by the spacing rounds to: the nearest one, or the even one at a tie.
\<close>

lemma roundHalfEven_near:
  assumes "of_int n - 1 / 2 < q" and "q < of_int n + 1 / 2"
  shows "roundHalfEven q = n"
proof -
  have "\<lfloor>q\<rfloor> = n \<or> \<lfloor>q\<rfloor> = n - 1" using assms by linarith
  then show ?thesis
  proof
    assume f: "\<lfloor>q\<rfloor> = n"
    then show ?thesis using assms by (simp add: roundHalfEven_def Let_def)
  next
    assume f: "\<lfloor>q\<rfloor> = n - 1"
    then show ?thesis using assms by (simp add: roundHalfEven_def Let_def)
  qed
qed

lemma roundHalfEven_tie_below:
  assumes "q = of_int n - 1 / 2" and "even n"
  shows "roundHalfEven q = n"
proof -
  have f: "\<lfloor>q\<rfloor> = n - 1" unfolding assms(1) by linarith
  have d: "q - of_int (n - 1) = 1 / 2" unfolding assms(1) by simp
  show ?thesis unfolding roundHalfEven_def Let_def f d using assms(2) by simp
qed

lemma roundHalfEven_tie_above:
  assumes "q = of_int n + 1 / 2" and "even n"
  shows "roundHalfEven q = n"
proof -
  have f: "\<lfloor>q\<rfloor> = n" unfolding assms(1) by linarith
  have d: "q - of_int n = 1 / 2" unfolding assms(1) by simp
  show ?thesis unfolding roundHalfEven_def Let_def f d using assms(2) by simp
qed

lemma roundNearest_eval:
  assumes "2 powi e \<le> \<bar>x\<bar>" and "\<bar>x\<bar> < 2 powi (e + 1)"
    and "roundHalfEven (x / 2 powi (max e (- 1022) - 52)) = n"
    and "r = of_int n * 2 powi (max e (- 1022) - 52)"
  shows "roundNearest x = r"
proof -
  have "0 < \<bar>x\<bar>" using assms(1) zero_less_power_int [of "2::rat" e] by linarith
  then have nz: "x \<noteq> 0" by simp
  have e: "expo \<bar>x\<bar> = e" using assms(1,2) by (rule expo_eqI)
  show ?thesis
    using nz assms(3,4) by (simp add: roundNearest_def ulp_def e)
qed

lemma round64_finite:
  assumes "roundNearest x = r" and "\<bar>r\<bar> < 2 powi 1024"
  shows "round64 x = Finite r"
  using assms by (simp add: round64_def Let_def abs_less_iff not_le)

lemma round64_eval:
  assumes "2 powi e \<le> \<bar>x\<bar>" and "\<bar>x\<bar> < 2 powi (e + 1)"
    and "roundHalfEven (x / 2 powi (max e (- 1022) - 52)) = n"
    and "r = of_int n * 2 powi (max e (- 1022) - 52)"
    and "\<bar>r\<bar> < 2 powi 1024"
  shows "round64 x = Finite r"
  using roundNearest_eval [OF assms(1-4)] assms(5) by (rule round64_finite)

text \<open>Doubles the model is checked on: one tenth, a tie at \<open>2^53\<close>, and an overflow.\<close>

lemma round64_tenth: "round64 (1 / 10) = Finite (3602879701896397 / 36028797018963968)"
proof (rule round64_eval [where e = "- 4" and n = 7205759403792794])
  show "roundHalfEven (1 / 10 / 2 powi (max (- 4) (- 1022) - 52)) = 7205759403792794"
    by (rule roundHalfEven_near) simp_all
qed simp_all

lemma round64_tie_to_even: "round64 (2 ^ 53 + 1) = Finite (2 ^ 53)"
proof (rule round64_eval [where e = 53 and n = 4503599627370496])
  show "roundHalfEven ((2 ^ 53 + 1) / 2 powi (max 53 (- 1022) - 52)) = 4503599627370496"
    by (rule roundHalfEven_tie_above) simp_all
qed simp_all

lemma round64_overflow: "round64 (2 ^ 1024) = PosInfinity"
proof -
  have "roundNearest (2 ^ 1024) = 2 ^ 1024"
  proof (rule roundNearest_eval [where e = 1024 and n = 4503599627370496])
    show "roundHalfEven (2 ^ 1024 / 2 powi (max 1024 (- 1022) - 52)) = 4503599627370496"
      by (rule roundHalfEven_near) simp_all
  qed simp_all
  then show ?thesis by (simp add: round64_def)
qed

lemma round64_2: "round64 2 = Finite 2"
proof (rule round64_eval [where e = 1 and n = 4503599627370496])
  show "roundHalfEven (2 / 2 powi (max 1 (- 1022) - 52)) = 4503599627370496"
    by (rule roundHalfEven_near) simp_all
qed simp_all

lemma round64_2000: "round64 2000 = Finite 2000"
proof (rule round64_eval [where e = 10 and n = 8796093022208000])
  show "roundHalfEven (2000 / 2 powi (max 10 (- 1022) - 52)) = 8796093022208000"
    by (rule roundHalfEven_near) simp_all
qed simp_all

subsection \<open>Rounding is monotone\<close>

text \<open>
  Rounding never reverses the order of two numbers: within one binade it is the
  rounding of the quotient, and the result stays inside the closed binade.
\<close>

lemma roundHalfEven_cases: "roundHalfEven q = \<lfloor>q\<rfloor> \<or> roundHalfEven q = \<lfloor>q\<rfloor> + 1"
  by (simp add: roundHalfEven_def Let_def)

lemma roundHalfEven_of_int: "roundHalfEven (of_int n) = n"
  by (simp add: roundHalfEven_def Let_def)

lemma roundHalfEven_mono:
  assumes "q \<le> q'"
  shows "roundHalfEven q \<le> roundHalfEven q'"
proof (cases "\<lfloor>q\<rfloor> < \<lfloor>q'\<rfloor>")
  case True
  have "roundHalfEven q \<le> \<lfloor>q\<rfloor> + 1" using roundHalfEven_cases [of q] by auto
  moreover have "\<lfloor>q'\<rfloor> \<le> roundHalfEven q'" using roundHalfEven_cases [of q'] by auto
  ultimately show ?thesis using True by linarith
next
  case False
  then have eq: "\<lfloor>q\<rfloor> = \<lfloor>q'\<rfloor>" using floor_mono [OF assms] by linarith
  have "q - of_int \<lfloor>q'\<rfloor> \<le> q' - of_int \<lfloor>q'\<rfloor>" using assms by simp
  then show ?thesis
    unfolding roundHalfEven_def Let_def eq by auto
qed

lemma roundHalfEven_ge: "of_int a \<le> q \<Longrightarrow> a \<le> roundHalfEven q"
  using roundHalfEven_mono [of "of_int a" q] by (simp add: roundHalfEven_of_int)

lemma roundHalfEven_le: "q \<le> of_int b \<Longrightarrow> roundHalfEven q \<le> b"
  using roundHalfEven_mono [of q "of_int b"] by (simp add: roundHalfEven_of_int)

lemma roundHalfEven_minus: "roundHalfEven (- q) = - roundHalfEven q"
proof (cases "q = of_int \<lfloor>q\<rfloor>")
  case True
  then obtain n where q: "q = of_int n" ..
  have "- q = of_int (- n)" by (simp add: q)
  then have "roundHalfEven (- q) = - n" by (simp only: roundHalfEven_of_int)
  then show ?thesis by (simp add: q roundHalfEven_of_int)
next
  case False
  define f where "f = \<lfloor>q\<rfloor>"
  have lt: "of_int f < q" "q < of_int f + 1"
    using False unfolding f_def by (linarith, linarith)
  have fl: "\<lfloor>- q\<rfloor> = - f - 1" using lt by linarith
  show ?thesis
    unfolding roundHalfEven_def Let_def fl f_def [symmetric] using lt
    by (auto simp: field_simps)
qed


lemma expo_mono:
  assumes "0 < x" and "x \<le> y"
  shows "expo x \<le> expo y"
proof (rule ccontr)
  assume "\<not> expo x \<le> expo y"
  then have "(2::rat) powi (expo y + 1) \<le> 2 powi (expo x)"
    by (intro power_int_increasing) simp_all
  moreover have "y < 2 powi (expo y + 1)" using expo_bounds [of y] assms by simp
  moreover have "2 powi (expo x) \<le> x" using expo_bounds [OF assms(1)] by simp
  ultimately show False using assms(2) by linarith
qed

lemma ulp_pos: "0 < ulp x"
  by (simp add: ulp_def)

lemma ulp_minus: "ulp (- x) = ulp x"
  by (simp add: ulp_def)

lemma roundNearest_minus: "roundNearest (- x) = - roundNearest x"
  by (simp add: roundNearest_def ulp_minus roundHalfEven_minus)

lemma two_powi_split: "(2::rat) powi (e + 1) = 2 ^ 53 * 2 powi (e - 52)"
proof -
  have "e + 1 = 53 + (e - 52)" by simp
  then have "(2::rat) powi (e + 1) = 2 powi (53 + (e - 52))" by (rule arg_cong)
  also have "\<dots> = 2 powi 53 * 2 powi (e - 52)" by (subst power_int_add) simp_all
  finally show ?thesis by simp
qed

lemma two_powi_split': "(2::rat) powi e = 2 ^ 52 * 2 powi (e - 52)"
proof -
  have "e = 52 + (e - 52)" by simp
  then have "(2::rat) powi e = 2 powi (52 + (e - 52))" by (rule arg_cong)
  also have "\<dots> = 2 powi 52 * 2 powi (e - 52)" by (subst power_int_add) simp_all
  finally show ?thesis by simp
qed

lemma roundNearest_pos_upper:
  assumes "0 < x"
  shows "roundNearest x \<le> 2 powi (max (expo x) (- 1022) + 1)"
proof -
  define E where "E = max (expo x) (- 1022)"
  have u: "ulp x = 2 powi (E - 52)" using assms by (simp add: ulp_def E_def)
  have "x < 2 powi (expo x + 1)" using expo_bounds [OF assms] by simp
  also have "\<dots> \<le> 2 powi (E + 1)" unfolding E_def by (intro power_int_increasing) simp_all
  finally have "x < 2 ^ 53 * ulp x" unfolding u two_powi_split .
  then have "x / ulp x \<le> of_int (2 ^ 53)"
    using ulp_pos [of x] by (simp add: field_simps)
  then have "roundHalfEven (x / ulp x) \<le> 2 ^ 53" by (rule roundHalfEven_le)
  then have "(of_int (roundHalfEven (x / ulp x)) :: rat) \<le> of_int (2 ^ 53)"
    by (simp only: of_int_le_iff)
  then have "of_int (roundHalfEven (x / ulp x)) * ulp x \<le> 2 ^ 53 * ulp x"
    using ulp_pos [of x] by (simp add: mult_right_mono)
  then show ?thesis
    using assms unfolding E_def [symmetric] two_powi_split u [symmetric]
    by (simp add: roundNearest_def)
qed

lemma roundNearest_pos_lower:
  assumes "0 < x" and "- 1022 \<le> expo x"
  shows "2 powi (expo x) \<le> roundNearest x"
proof -
  have u: "ulp x = 2 powi (expo x - 52)" using assms by (simp add: ulp_def max_def)
  have "2 ^ 52 * ulp x \<le> x"
    using expo_bounds [OF assms(1)] unfolding u two_powi_split' [symmetric] by simp
  then have "of_int (2 ^ 52) \<le> x / ulp x"
    using ulp_pos [of x] by (simp add: field_simps)
  then have "2 ^ 52 \<le> roundHalfEven (x / ulp x)" by (rule roundHalfEven_ge)
  then have "(of_int (2 ^ 52) :: rat) \<le> of_int (roundHalfEven (x / ulp x))"
    by (simp only: of_int_le_iff)
  then have "2 ^ 52 * ulp x \<le> of_int (roundHalfEven (x / ulp x)) * ulp x"
    using ulp_pos [of x] by (simp add: mult_right_mono)
  then show ?thesis
    using assms(1) unfolding two_powi_split' [of "expo x"] u [symmetric]
    by (simp add: roundNearest_def)
qed

lemma roundNearest_nonneg:
  assumes "0 \<le> x"
  shows "0 \<le> roundNearest x"
proof (cases "x = 0")
  case True
  then show ?thesis by (simp add: roundNearest_def)
next
  case False
  then have "of_int 0 \<le> x / ulp x" using assms ulp_pos [of x] by simp
  then have "0 \<le> roundHalfEven (x / ulp x)" by (rule roundHalfEven_ge)
  then show ?thesis using False ulp_pos [of x] by (simp add: roundNearest_def)
qed

lemma roundNearest_mono_pos:
  assumes "0 < x" and "x \<le> y"
  shows "roundNearest x \<le> roundNearest y"
proof -
  have ypos: "0 < y" using assms by simp
  define Ex where "Ex = max (expo x) (- 1022)"
  define Ey where "Ey = max (expo y) (- 1022)"
  have le: "Ex \<le> Ey" unfolding Ex_def Ey_def using expo_mono [OF assms] by simp
  show ?thesis
  proof (cases "Ex = Ey")
    case True
    then have u: "ulp x = ulp y" using assms ypos by (simp add: ulp_def Ex_def Ey_def)
    have "x / ulp y \<le> y / ulp y" using assms(2) ulp_pos [of y] by (simp add: divide_right_mono)
    then have "roundHalfEven (x / ulp y) \<le> roundHalfEven (y / ulp y)" by (rule roundHalfEven_mono)
    then have "(of_int (roundHalfEven (x / ulp y)) :: rat) \<le> of_int (roundHalfEven (y / ulp y))"
      by (simp only: of_int_le_iff)
    then show ?thesis
      using assms(1) ypos ulp_pos [of y] by (simp add: roundNearest_def u mult_right_mono)
  next
    case False
    then have lt: "Ex < Ey" using le by simp
    then have ny: "- 1022 \<le> expo y" and ey: "Ey = expo y"
      unfolding Ex_def Ey_def by (simp_all add: max_def split: if_splits)
    have "roundNearest x \<le> 2 powi (Ex + 1)"
      unfolding Ex_def by (rule roundNearest_pos_upper [OF assms(1)])
    also have "\<dots> \<le> 2 powi Ey" using lt by (intro power_int_increasing) simp_all
    also have "\<dots> \<le> roundNearest y" unfolding ey by (rule roundNearest_pos_lower [OF ypos ny])
    finally show ?thesis .
  qed
qed

lemma roundNearest_mono:
  assumes "x \<le> y"
  shows "roundNearest x \<le> roundNearest y"
proof -
  consider "0 < x" | "x \<le> 0" "0 \<le> y" | "y < 0" by linarith
  then show ?thesis
  proof cases
    case 1
    then show ?thesis using assms by (rule roundNearest_mono_pos)
  next
    case 2
    have "roundNearest x \<le> 0"
      using roundNearest_nonneg [of "- x"] 2(1) by (simp add: roundNearest_minus)
    moreover have "0 \<le> roundNearest y" using 2(2) by (rule roundNearest_nonneg)
    ultimately show ?thesis by simp
  next
    case 3
    then have "0 < - y" and "- y \<le> - x" using assms by simp_all
    then have "roundNearest (- y) \<le> roundNearest (- x)" by (rule roundNearest_mono_pos)
    then show ?thesis by (simp add: roundNearest_minus)
  qed
qed

subsection \<open>The delay in binary64\<close>

text \<open>
  In binary64 the delay stays inside the closed interval: when \<open>2^a\<close>, the product
  \<open>b * 2^a\<close> and \<open>b * 2^a + 1000\<close> are doubles and the random value \<open>u\<close> has
  \<open>0 \<le> u < 1\<close>, the computed delay is a finite double between \<open>b * 2^a\<close> and
  \<open>b * 2^a + 1000\<close>, both ends included.
\<close>

lemma round64_FiniteD:
  assumes "round64 x = Finite y"
  shows "roundNearest x = y \<and> \<bar>y\<bar> < 2 powi 1024"
  using assms by (auto simp: round64_def Let_def split: if_splits)

lemma roundNearest_1000: "roundNearest 1000 = 1000"
proof (rule roundNearest_eval [where e = 9 and n = 8796093022208000])
  show "roundHalfEven (1000 / 2 powi (max 9 (- 1022) - 52)) = 8796093022208000"
    by (rule roundHalfEven_near) simp_all
qed simp_all

lemma calculateDelay64_closed_bounds:
  assumes "0 \<le> u" and "u < 1"
    and "round64 (2 ^ a) = Finite (2 ^ a)"
    and "round64 (b * 2 ^ a) = Finite (b * 2 ^ a)"
    and "round64 (b * 2 ^ a + 1000) = Finite (b * 2 ^ a + 1000)"
  shows "\<exists>d. calculateDelay64 a (Finite b) (Finite u) = Finite d
             \<and> b * 2 ^ a \<le> d \<and> d \<le> b * 2 ^ a + 1000"
proof -
  define B where "B = b * 2 ^ a"
  define j where "j = roundNearest (u * 1000)"
  have B: "roundNearest B = B" "\<bar>B\<bar> < 2 powi 1024"
    using round64_FiniteD [OF assms(4)] by (simp_all add: B_def)
  have T: "roundNearest (B + 1000) = B + 1000" "\<bar>B + 1000\<bar> < 2 powi 1024"
    using round64_FiniteD [OF assms(5)] by (simp_all add: B_def)
  have j0: "0 \<le> j" unfolding j_def using assms(1) by (intro roundNearest_nonneg) simp
  have "roundNearest (u * 1000) \<le> roundNearest 1000"
    using assms(2) by (intro roundNearest_mono) simp
  then have j1: "j \<le> 1000" by (simp add: j_def roundNearest_1000)
  have jf: "round64 (u * 1000) = Finite j"
    using j0 j1 by (intro round64_finite) (simp_all add: j_def)
  define d where "d = roundNearest (B + j)"
  have "roundNearest B \<le> d" unfolding d_def using j0 by (intro roundNearest_mono) simp
  then have lo: "B \<le> d" by (simp add: B)
  have "d \<le> roundNearest (B + 1000)" unfolding d_def using j1 by (intro roundNearest_mono) simp
  then have hi: "d \<le> B + 1000" by (simp add: T)
  have "\<bar>d\<bar> < 2 powi 1024" using lo hi B(2) T(2) by (simp add: abs_less_iff)
  then have df: "round64 (B + j) = Finite d" by (intro round64_finite) (simp add: d_def)
  have "calculateDelay64 a (Finite b) (Finite u) = Finite d"
    unfolding calculateDelay64_def assms(3)
    by (simp only: mul64.simps add64.simps assms(4) jf df [unfolded B_def])
  then show ?thesis using lo hi unfolding B_def by blast
qed

text \<open>
  For the base delay 1000 and the attempt 1 the three numbers are the doubles 2, 2000
  and 3000: the delay of that attempt always lies between 2000 and 3000.
\<close>

lemma round64_3000: "round64 3000 = Finite 3000"
proof (rule round64_eval [where e = 11 and n = 6597069766656000])
  show "roundHalfEven (3000 / 2 powi (max 11 (- 1022) - 52)) = 6597069766656000"
    by (rule roundHalfEven_near) simp_all
qed simp_all

lemma calculateDelay64_second_attempt:
  assumes "0 \<le> u" and "u < 1"
  shows "\<exists>d. calculateDelay64 1 (Finite 1000) (Finite u) = Finite d \<and> 2000 \<le> d \<and> d \<le> 3000"
  using calculateDelay64_closed_bounds [OF assms, of 1 1000]
  by (simp add: round64_2 round64_2000 round64_3000)

text \<open>
  C4 fails on the code. \<open>1 - 2^-52\<close> is a double below 1. When \<open>Math.random()\<close>
  returns it, \<open>calculateDelay(1, 1000)\<close> is exactly \<open>3000 = 1000 * 2^1 + 1000\<close>: the
  jitter rounds to \<open>1000 - 2^-42\<close>, and \<open>2000 + (1000 - 2^-42)\<close> lies halfway between
  two doubles and goes to the even one, 3000. The delay is not below the upper end of
  the interval, which the function's own test expects it to be.
\<close>

theorem calculateDelay64_attains_upper_end:
  "round64 (1 - 1 / 2 ^ 52) = Finite (1 - 1 / 2 ^ 52)
   \<and> (1 - 1 / 2 ^ 52 :: rat) < 1
   \<and> calculateDelay64 1 (Finite 1000) (Finite (1 - 1 / 2 ^ 52)) = Finite (1000 * 2 ^ 1 + 1000)"
proof -
  have u: "round64 (1 - 1 / 2 ^ 52) = Finite (1 - 1 / 2 ^ 52)"
  proof (rule round64_eval [where e = "- 1" and n = 9007199254740990])
    show "roundHalfEven ((1 - 1 / 2 ^ 52) / 2 powi (max (- 1) (- 1022) - 52))
            = 9007199254740990"
      by (rule roundHalfEven_near) simp_all
  qed simp_all
  have j: "round64 ((1 - 1 / 2 ^ 52) * 1000) = Finite (1000 - 1 / 2 ^ 42)"
  proof (rule round64_eval [where e = 9 and n = 8796093022207998])
    show "roundHalfEven ((1 - 1 / 2 ^ 52) * 1000 / 2 powi (max 9 (- 1022) - 52))
            = 8796093022207998"
      by (rule roundHalfEven_near) simp_all
  qed simp_all
  have s: "round64 (2000 + (1000 - 1 / 2 ^ 42)) = Finite 3000"
  proof (rule round64_eval [where e = 11 and n = 6597069766656000])
    show "roundHalfEven ((2000 + (1000 - 1 / 2 ^ 42)) / 2 powi (max 11 (- 1022) - 52))
            = 6597069766656000"
      by (rule roundHalfEven_tie_below) simp_all
  qed simp_all
  have p: "round64 (2 ^ 1) = Finite 2" by (simp add: round64_2)
  have m: "mul64 (Finite 1000) (Finite 2) = Finite 2000" by (simp add: round64_2000)
  have jj: "mul64 (Finite (1 - 1 / 2 ^ 52)) (Finite 1000) = Finite (1000 - 1 / 2 ^ 42)"
    by (simp only: mul64.simps j)
  have ss: "add64 (Finite 2000) (Finite (1000 - 1 / 2 ^ 42)) = Finite 3000"
    by (simp only: add64.simps s)
  have "calculateDelay64 1 (Finite 1000) (Finite (1 - 1 / 2 ^ 52)) = Finite 3000"
    by (simp only: calculateDelay64_def p m jj ss)
  then show ?thesis using u by simp
qed

section \<open>Classification of a 429 response\<close>

text \<open>
  C6. For every transport failure that carries a response with status 429,
  \<open>createErrorFromResponse\<close> returns a rate-limit error whose limit, remaining and reset
  are parsed from the headers \<open>x-ratelimit-limit\<close>, \<open>x-ratelimit-remaining\<close> and
  \<open>x-ratelimit-reset\<close> (the last one times 1000, as a date) and whose retryAfter is
  parsed from \<open>retry-after\<close>, and is 60 when that header is absent.
\<close>

theorem createErrorFromResponse_rate_limit:
  assumes "response error = Some r" and "status r = 429"
  shows "\<exists>lim rem rst ra.
           createErrorFromResponse error =
             Inr (ProxyCheckRateLimitError ''Rate limit exceeded'' lim rem (Date rst) ra)
           \<and> (\<forall>v. headers r ''x-ratelimit-limit'' = Some v \<and> v \<noteq> [] \<longrightarrow> lim = parseInt v)
           \<and> (\<forall>v. headers r ''x-ratelimit-remaining'' = Some v \<and> v \<noteq> [] \<longrightarrow> rem = parseInt v)
           \<and> (\<forall>v. headers r ''x-ratelimit-reset'' = Some v \<and> v \<noteq> []
                  \<longrightarrow> rst = times1000 (parseInt v))
           \<and> (\<forall>v. headers r ''retry-after'' = Some v \<and> v \<noteq> [] \<longrightarrow> ra = parseInt v)
           \<and> (headers r ''retry-after'' = None \<longrightarrow> ra = Some 60)"
  using assms
  by (simp add: createErrorFromResponse_def orElse_def parseInt_sixty)

text \<open>The 429 response of the classifier's test gives limit 100 and retryAfter 30.\<close>

theorem createErrorFromResponse_rate_limit_witness:
  "response (failureWith response429) = Some response429
   \<and> status response429 = 429
   \<and> createErrorFromResponse (failureWith response429)
       = Inr (ProxyCheckRateLimitError ''Rate limit exceeded'' (Some 100) (Some 0)
                (Date (Some 1700000000000)) (Some 30))"
  using createErrorFromResponse_rate_limit [of "failureWith response429" response429]
  by (simp add: failureWith_def response429_def parseInt_eval times1000_def)

section \<open>The retry loop\<close>

text \<open>
  The three ways one attempt can end: the transport resolves, it rejects and the loop
  breaks, or it rejects and the loop sleeps and goes on to the next attempt.
\<close>

lemma responseInterceptor_fst:
  "fst (responseInterceptor info out) =
     (case out of Resolved r \<Rightarrow> Inr r | Rejected f \<Rightarrow> Inl (rejection f))"
  by (simp add: responseInterceptor_def split: transport_outcome.splits)

lemma requestLoop_resolved:
  assumes "a \<le> retries cfg" and "tr a = Resolved r"
  shows "requestLoop cfg tr rnd a le info slept =
           \<lparr> outcome = Inr (data r), attempts = Suc a, sleeps = slept,
             rateLimitInfo = updateRateLimitInfo info r \<rparr>"
  using assms by (subst requestLoop.simps) (simp add: responseInterceptor_def)

lemma requestLoop_terminal:
  assumes "a \<le> retries cfg" and "tr a = Rejected f"
    and "a = retries cfg \<or> \<not> isRetryableError (rejection f)"
  shows "requestLoop cfg tr rnd a le info slept =
           \<lparr> outcome = Inl (rejection f), attempts = Suc a, sleeps = slept,
             rateLimitInfo = snd (responseInterceptor info (tr a)) \<rparr>"
  using assms by (subst requestLoop.simps) (auto simp: responseInterceptor_def)

lemma requestLoop_retry:
  assumes "a < retries cfg" and "tr a = Rejected f" and "isRetryableError (rejection f)"
  shows "requestLoop cfg tr rnd a le info slept =
           requestLoop cfg tr rnd (Suc a) (rejection f)
             (snd (responseInterceptor info (tr a)))
             (slept @ [nextDelay cfg a (rnd a) (rejection f)])"
  using assms by (subst requestLoop.simps) (simp add: responseInterceptor_def)

lemma requestLoop_result:
  assumes "a \<le> retries cfg"
  shows "\<exists>k. a \<le> k \<and> k \<le> retries cfg
           \<and> attempts (requestLoop cfg tr rnd a le info slept) = Suc k
           \<and> (\<forall>j. a \<le> j \<and> j < k \<longrightarrow> (\<exists>e. attemptError tr j = Some e \<and> isRetryableError e))
           \<and> (case tr k of
                 Resolved r \<Rightarrow> outcome (requestLoop cfg tr rnd a le info slept) = Inr (data r)
               | Rejected f \<Rightarrow>
                   outcome (requestLoop cfg tr rnd a le info slept) = Inl (rejection f)
                   \<and> (k = retries cfg \<or> \<not> isRetryableError (rejection f)))"
  using assms
proof (induction "retries cfg - a" arbitrary: a le info slept)
  case 0
  then have a: "a = retries cfg" by simp
  show ?case
  proof (cases "tr a")
    case (Resolved r)
    with a show ?thesis
      by (intro exI [of _ a]) (auto simp: requestLoop_resolved)
  next
    case (Rejected f)
    with a show ?thesis
      by (intro exI [of _ a]) (auto simp: requestLoop_terminal)
  qed
next
  case (Suc n)
  then have lt: "a < retries cfg" by simp
  show ?case
  proof (cases "tr a")
    case (Resolved r)
    with lt show ?thesis
      by (intro exI [of _ a]) (auto simp: requestLoop_resolved)
  next
    case (Rejected f)
    show ?thesis
    proof (cases "isRetryableError (rejection f)")
      case False
      with Rejected lt show ?thesis
        by (intro exI [of _ a]) (auto simp: requestLoop_terminal)
    next
      case True
      let ?next = "requestLoop cfg tr rnd (Suc a) (rejection f)
                     (snd (responseInterceptor info (tr a)))
                     (slept @ [nextDelay cfg a (rnd a) (rejection f)])"
      have step: "requestLoop cfg tr rnd a le info slept = ?next"
        using requestLoop_retry [where a = a and tr = tr and f = f and cfg = cfg] lt Rejected True
        by simp
      have "n = retries cfg - Suc a" and "Suc a \<le> retries cfg"
        using Suc.hyps(2) lt by simp_all
      from Suc.hyps(1) [OF this]
      obtain k where k: "Suc a \<le> k" "k \<le> retries cfg" "attempts ?next = Suc k"
        "\<forall>j. Suc a \<le> j \<and> j < k \<longrightarrow> (\<exists>e. attemptError tr j = Some e \<and> isRetryableError e)"
        "(case tr k of
            Resolved r \<Rightarrow> outcome ?next = Inr (data r)
          | Rejected f \<Rightarrow> outcome ?next = Inl (rejection f)
              \<and> (k = retries cfg \<or> \<not> isRetryableError (rejection f)))"
        by blast
      have here: "attemptError tr a = Some (rejection f)"
        using Rejected by (simp add: attemptError_def)
      have earlier: "\<forall>j. a \<le> j \<and> j < k \<longrightarrow> (\<exists>e. attemptError tr j = Some e \<and> isRetryableError e)"
      proof (intro allI impI)
        fix j assume j: "a \<le> j \<and> j < k"
        show "\<exists>e. attemptError tr j = Some e \<and> isRetryableError e"
        proof (cases "j = a")
          case True
          with here \<open>isRetryableError (rejection f)\<close> show ?thesis by simp
        next
          case False
          with j have "Suc a \<le> j \<and> j < k" by simp
          with k(4) show ?thesis by blast
        qed
      qed
      show ?thesis
        unfolding step using k(1,2,3,5) earlier
        by (intro exI [of _ k]) auto
    qed
  qed
qed



text \<open>
  C2. For every retry count and every sequence of transport outcomes, one call of
  \<open>request\<close> makes at most \<open>retries + 1\<close> transport attempts and terminates
  (\<open>requestLoop\<close> is a total function, by its termination proof): it ends at an
  attempt \<open>k \<le> retries\<close>, after \<open>k + 1\<close> transport calls, every earlier attempt
  having failed with a retryable error; the attempt \<open>k\<close> either resolved, and its
  body is returned, or it was rejected and the rejection is thrown, and then
  \<open>k = retries\<close> or the error is not retryable.
\<close>

theorem request_attempts_bounded:
  "attempts (request cfg tr rnd info) \<le> retries cfg + 1
   \<and> (\<exists>k\<le>retries cfg.
         attempts (request cfg tr rnd info) = Suc k
         \<and> (\<forall>j<k. \<exists>e. attemptError tr j = Some e \<and> isRetryableError e)
         \<and> (case tr k of
               Resolved r \<Rightarrow> outcome (request cfg tr rnd info) = Inr (data r)
             | Rejected f \<Rightarrow>
                 outcome (request cfg tr rnd info) = Inl (rejection f)
                 \<and> (k = retries cfg \<or> \<not> isRetryableError (rejection f))))"
proof -
  obtain k where k: "k \<le> retries cfg"
      "attempts (request cfg tr rnd info) = Suc k"
      "\<forall>j. 0 \<le> j \<and> j < k \<longrightarrow> (\<exists>e. attemptError tr j = Some e \<and> isRetryableError e)"
      "(case tr k of
          Resolved r \<Rightarrow> outcome (request cfg tr rnd info) = Inr (data r)
        | Rejected f \<Rightarrow>
            outcome (request cfg tr rnd info) = Inl (rejection f)
            \<and> (k = retries cfg \<or> \<not> isRetryableError (rejection f)))"
    using requestLoop_result [of 0 cfg tr rnd ThrownUndefined info "[]"]
    unfolding request_def by auto
  have "attempts (request cfg tr rnd info) \<le> retries cfg + 1"
    using k(1,2) by simp
  moreover have "\<forall>j<k. \<exists>e. attemptError tr j = Some e \<and> isRetryableError e"
    using k(3) by simp
  ultimately show ?thesis
    using k(1,2,4) by blast
qed

text \<open>
  With three retries and a network that always fails, four attempts are made and the
  network error is thrown.
\<close>

theorem request_attempts_bounded_witness:
  "attempts (request config3 (\<lambda>k. Rejected networkFailure) halfJitter None) \<le> 4
   \<and> attempts (request config3 (\<lambda>k. Rejected networkFailure) halfJitter None) = 4
   \<and> outcome (request config3 (\<lambda>k. Rejected networkFailure) halfJitter None)
       = Inl (Typed (ProxyCheckNetworkError ''Network error occurred'' (Some networkFailure)))"
  using request_attempts_bounded [of config3 "\<lambda>k. Rejected networkFailure" halfJitter None]
  by (simp add: request_eval config3_def networkFailure_def error_codes)

section \<open>Delay after a rate-limit error\<close>




section \<open>Rate-limit snapshot\<close>

text \<open>
  C5 (as amended). After every response, of a success or of an error with a response,
  whose \<open>x-ratelimit-limit\<close> header is present and not empty, the snapshot is
  replaced, whatever it was before, by: limit parsed from \<open>x-ratelimit-limit\<close>,
  remaining parsed from \<open>x-ratelimit-remaining\<close> (0 when missing), reset the date of
  the \<open>x-ratelimit-reset\<close> value times 1000, and retryAfter parsed from
  \<open>retry-after\<close> (0 when missing). When there is no response, or its
  \<open>x-ratelimit-limit\<close> header is absent or empty, the snapshot is left unchanged.
\<close>

theorem responseInterceptor_rate_limit_info:
  "(\<forall>r l. received out = Some r \<and> headers r ''x-ratelimit-limit'' = Some l \<and> l \<noteq> [] \<longrightarrow>
      (\<exists>rem rst ra.
         snd (responseInterceptor info out)
           = Some \<lparr> limit = parseInt l, remaining = rem, reset = Date rst, retryAfter = ra \<rparr>
         \<and> (\<forall>v. headers r ''x-ratelimit-remaining'' = Some v \<and> v \<noteq> [] \<longrightarrow> rem = parseInt v)
         \<and> (headers r ''x-ratelimit-remaining'' = None \<longrightarrow> rem = Some 0)
         \<and> (\<forall>v. headers r ''x-ratelimit-reset'' = Some v \<and> v \<noteq> []
                \<longrightarrow> rst = times1000 (parseInt v))
         \<and> (\<forall>v. headers r ''retry-after'' = Some v \<and> v \<noteq> [] \<longrightarrow> ra = parseInt v)
         \<and> (headers r ''retry-after'' = None \<longrightarrow> ra = Some 0))
      \<and> (\<forall>other. snd (responseInterceptor other out) = snd (responseInterceptor info out)))
   \<and> ((\<forall>r. received out = Some r \<longrightarrow> \<not> truthy (headers r ''x-ratelimit-limit''))
        \<longrightarrow> snd (responseInterceptor info out) = info)"
proof (cases out)
  case (Resolved r)
  then show ?thesis
    by (auto simp: received_def responseInterceptor_def updateRateLimitInfo_def orElse_def
          truthy_def parseInt_zero split: option.splits)
next
  case (Rejected f)
  then show ?thesis
    by (auto simp: received_def responseInterceptor_def updateRateLimitInfo_def orElse_def
          truthy_def parseInt_zero split: option.splits)
qed

text \<open>
  The success of the examples replaces an older snapshot; a failure without a
  response leaves it as it was.
\<close>

theorem responseInterceptor_rate_limit_info_witness:
  "received (Resolved okResponse) = Some okResponse
   \<and> snd (responseInterceptor (Some oldSnapshot) (Resolved okResponse))
       = Some \<lparr> limit = Some 1000, remaining = Some 998, reset = Date (Some 0),
                retryAfter = Some 0 \<rparr>
   \<and> snd (responseInterceptor (Some oldSnapshot) (Rejected networkFailure)) = Some oldSnapshot"
  using responseInterceptor_rate_limit_info [of "Resolved okResponse" "Some oldSnapshot"]
        responseInterceptor_rate_limit_info [of "Rejected networkFailure" "Some oldSnapshot"]
  by (simp add: received_def responseInterceptor_def updateRateLimitInfo_def orElse_def
        okResponse_def networkFailure_def parseInt_eval times1000_def truthy_def)

text \<open>
  C5 as stated fails: a response that carries \<open>x-ratelimit-remaining\<close> and
  \<open>retry-after\<close> but no \<open>x-ratelimit-limit\<close> carries rate-limit information, and
  the snapshot is not replaced: it keeps the old remaining count 99.
\<close>

theorem updateRateLimitInfo_remaining_only_counterexample:
  "headers remainingOnly ''x-ratelimit-remaining'' = Some ''5''
   \<and> headers remainingOnly ''retry-after'' = Some ''30''
   \<and> snd (responseInterceptor (Some oldSnapshot) (Resolved remainingOnly)) = Some oldSnapshot
   \<and> remaining oldSnapshot = Some 99"
  by (simp add: responseInterceptor_def updateRateLimitInfo_def remainingOnly_def oldSnapshot_def)

section \<open>Errors raised by request\<close>

text \<open>
  When no rejected attempt carries a response with a \<open>null\<close> or \<open>undefined\<close>
  body (of a status other than 429 and 401), the classifier returns, and what
  \<open>request\<close> throws is a typed error.
\<close>

lemma rejection_typed:
  assumes "\<forall>r. response f = Some r \<and> status r \<noteq> 429 \<and> status r \<noteq> 401
             \<longrightarrow> data r \<noteq> JNull \<and> data r \<noteq> JUndefined"
  shows "isProxyCheckError (rejection f)"
  using assms
  by (auto simp: rejection_def createErrorFromResponse_def fromResponse_def Let_def
        split: option.splits sum.splits)

lemma request_throws_typed:
  assumes "\<forall>k f r. tr k = Rejected f \<and> response f = Some r \<and> status r \<noteq> 429 \<and> status r \<noteq> 401
             \<longrightarrow> data r \<noteq> JNull \<and> data r \<noteq> JUndefined"
    and "outcome (request cfg tr rnd info) = Inl e"
  shows "isProxyCheckError e"
proof -
  obtain k where k:
    "(case tr k of
        Resolved r \<Rightarrow> outcome (request cfg tr rnd info) = Inr (data r)
      | Rejected f \<Rightarrow>
          outcome (request cfg tr rnd info) = Inl (rejection f)
          \<and> (k = retries cfg \<or> \<not> isRetryableError (rejection f)))"
    using requestLoop_result [of 0 cfg tr rnd ThrownUndefined info "[]"]
    unfolding request_def by auto
  show ?thesis
  proof (cases "tr k")
    case (Resolved r)
    with k assms(2) show ?thesis by simp
  next
    case (Rejected f)
    with k assms(2) have "e = rejection f" by simp
    moreover have "isProxyCheckError (rejection f)"
      using assms(1) Rejected by (intro rejection_typed) blast
    ultimately show ?thesis by simp
  qed
qed

text \<open>
  C7 fails on the code. A transport failure whose response has status 500 and the
  body \<open>null\<close> makes \<open>fromResponse\<close> read \<open>response.message\<close> on \<open>null\<close>: the
  classifier raises a \<open>TypeError\<close>, which is not retryable, and \<open>request\<close> throws
  it to its caller.
\<close>

theorem request_null_body_raises_TypeError:
  "outcome (request config3 (\<lambda>k. Rejected (failureWith response500null)) halfJitter None)
     = Inl (TypeError ''Cannot read properties of null or undefined (reading message)'')
   \<and> \<not> isProxyCheckError
         (TypeError ''Cannot read properties of null or undefined (reading message)'')"
  by (simp add: request_eval failureWith_def response500null_def config3_def error_codes)

section \<open>POST data\<close>

text \<open>
  C8 (as amended). For every option bag and every address argument, \<open>buildPostData\<close>
  sets \<open>ips\<close> to the comma-joined addresses exactly when the argument is an array of
  more than one address, and, whatever the number of addresses, sets \<open>tag\<close> exactly
  when query tagging is enabled and the custom tag is a non-empty string; the body is
  empty exactly when neither holds.
\<close>

theorem buildPostData_fields:
  "ips (buildPostData options addrs)
     = (case addrs of
          Some (Many xs) \<Rightarrow> if 1 < length xs then Some (join '','' xs) else None
        | _ \<Rightarrow> None)
   \<and> tag (buildPostData options addrs)
     = (if queryTagging options = Some True \<and> truthy (customTag options)
        then customTag options else None)
   \<and> (buildPostData options addrs = \<lparr> ips = None, tag = None \<rparr>
        \<longleftrightarrow> \<not> shouldUsePostMethod addrs
            \<and> \<not> (queryTagging options = Some True \<and> truthy (customTag options)))"
  by (auto simp: buildPostData_def shouldUsePostMethod_def truthy_def Let_def
        split: option.splits addresses.splits)

text \<open>
  C8 as stated fails: with query tagging enabled and a custom tag, the body for a
  single address is not empty (the case of the function's own test).
\<close>

theorem buildPostData_single_address_tag_counterexample:
  "buildPostData (noOptions \<lparr> queryTagging := Some True, customTag := Some ''test-tag'' \<rparr>)
     (Some (Single ''1.2.3.4''))
     = \<lparr> ips = None, tag = Some ''test-tag'' \<rparr>
   \<and> \<not> shouldUsePostMethod (Some (Single ''1.2.3.4''))"
  by (simp add: buildPostData_def shouldUsePostMethod_def truthy_def noOptions_def)

lemma buildPostData_two_addresses:
  "buildPostData noOptions (Some (Many [''1.2.3.4'', ''5.6.7.8'']))
     = \<lparr> ips = Some ''1.2.3.4,5.6.7.8'', tag = None \<rparr>"
  by (simp add: buildPostData_def truthy_def noOptions_def)

section \<open>Country options\<close>

text \<open>
  C9. \<open>mergeCountryOptions\<close> sets \<open>asnData\<close> to true whenever the allowed or the
  blocked countries are a non-empty array, and otherwise returns its input; in both
  cases every field other than \<open>asnData\<close> is unchanged, the two country lists among
  them.
\<close>

theorem mergeCountryOptions_frame:
  "((\<exists>xs. allowedCountries options = Some xs \<and> xs \<noteq> [])
      \<or> (\<exists>xs. blockedCountries options = Some xs \<and> xs \<noteq> [])
     \<longrightarrow> asnData (mergeCountryOptions options) = Some True)
   \<and> (\<not> ((\<exists>xs. allowedCountries options = Some xs \<and> xs \<noteq> [])
          \<or> (\<exists>xs. blockedCountries options = Some xs \<and> xs \<noteq> []))
     \<longrightarrow> mergeCountryOptions options = options)
   \<and> (mergeCountryOptions options) \<lparr> asnData := asnData options \<rparr> = options
   \<and> allowedCountries (mergeCountryOptions options) = allowedCountries options
   \<and> blockedCountries (mergeCountryOptions options) = blockedCountries options"
  by (auto simp: mergeCountryOptions_def nonEmptyList_def Let_def split: option.splits)

text \<open>
  The two cases of the function's own test: allowed countries force \<open>asnData\<close>, and
  options without country lists come back as they were.
\<close>

theorem mergeCountryOptions_frame_witness:
  "allowedCountries (noOptions \<lparr> allowedCountries := Some [''US'', ''CA''], asnData := Some False \<rparr>)
      = Some [''US'', ''CA'']
   \<and> asnData (mergeCountryOptions
        (noOptions \<lparr> allowedCountries := Some [''US'', ''CA''], asnData := Some False \<rparr>))
      = Some True
   \<and> mergeCountryOptions (noOptions \<lparr> vpnDetection := Some 1 \<rparr>)
      = noOptions \<lparr> vpnDetection := Some 1 \<rparr>"
  using mergeCountryOptions_frame
          [of "noOptions \<lparr> allowedCountries := Some [''US'', ''CA''], asnData := Some False \<rparr>"]
        mergeCountryOptions_frame [of "noOptions \<lparr> vpnDetection := Some 1 \<rparr>"]
  by (simp add: noOptions_def)

section \<open>Masking of addresses\<close>

text \<open>
  An address without \<open>@\<close> is unchanged, an address with one \<open>@\<close> keeps its
  domain, and of an address with more than one \<open>@\<close> only the text between the first
  two is kept.
\<close>

lemma includesStr_at: "includesStr s [c] \<longleftrightarrow> c \<in> set s"
  by (induction s) auto

lemma split_no_separator: "c \<notin> set s \<Longrightarrow> split c s = [s]"
  by (induction s) auto

lemma split_first_separator:
  "c \<notin> set l \<Longrightarrow> split c (l @ c # r) = l # split c r"
  by (induction l) auto

lemma maskEmail_unchanged: "CHR ''@'' \<notin> set a \<Longrightarrow> maskEmail a = a"
  by (simp add: maskEmail_def includesStr_at)

lemma maskEmail_one_at:
  assumes "CHR ''@'' \<notin> set l" and "CHR ''@'' \<notin> set d"
  shows "maskEmail (l @ ''@'' @ d) = ''anonymous@'' @ d"
  using assms
  by (simp add: maskEmail_def includesStr_at split_first_separator split_no_separator)

lemma maskEmail_general:
  assumes "CHR ''@'' \<notin> set l" and "CHR ''@'' \<notin> set d"
  shows "maskEmail (l @ ''@'' @ d @ ''@'' @ rest) = ''anonymous@'' @ d"
  using assms
  by (simp add: maskEmail_def includesStr_at split_first_separator split: list.splits)

lemma processAddresses_disabled:
  "m \<noteq> Some True \<Longrightarrow> processAddresses addrs m = addrs"
  by (simp add: processAddresses_def)

lemma processAddresses_enabled:
  "processAddresses (Single a) (Some True) = Single (maskEmail a)"
  "processAddresses (Many xs) (Some True) = Many (map maskEmail xs)"
  by (simp_all add: processAddresses_def)

text \<open>
  C10 fails on the code. The domain of \<open>first@last@example.com\<close> is
  \<open>example.com\<close>; \<open>processAddresses\<close> with masking enabled returns
  \<open>anonymous@last\<close>, for a single address and inside an array, because \<open>maskEmail\<close>
  keeps only the second element of the split.
\<close>

theorem processAddresses_second_at_truncates:
  "processAddresses (Single ''first@last@example.com'') (Some True) = Single ''anonymous@last''
   \<and> processAddresses (Many [''1.2.3.4'', ''first@last@example.com'']) (Some True)
       = Many [''1.2.3.4'', ''anonymous@last'']"
  by (simp add: processAddresses_def maskEmail_def)

lemma processAddresses_test:
  "processAddresses (Many [''1.2.3.4'', ''test@example.com'', ''user@domain.org'']) (Some True)
     = Many [''1.2.3.4'', ''anonymous@example.com'', ''anonymous@domain.org'']"
  by (simp add: processAddresses_def maskEmail_def)

end
